theory Spec2Isabelle
  imports Complex_Main
begin

section \<open>Python values, exceptions and string literals\<close>

text \<open>
  The program is one Python module, \<^verbatim>\<open>homework.py\<close>.  A Python \<^verbatim>\<open>str\<close> is modelled as a
  \<^typ>\<open>string\<close> holding its UTF-8 bytes: concatenation of texts is concatenation of byte lists
  and two texts are equal exactly when their encodings are, which is all the program does
  with strings (f-string interpolation, \<^verbatim>\<open>!=\<close>, dictionary lookup).  The Russian literals
  of the module are therefore given as the bytes they have in the source file.

  \<open>pyval\<close> is the universe of values the module handles: what \<^verbatim>\<open>response.json()\<close> can
  build from a JSON document and what the three credential globals can hold.  A dictionary
  is an association list read with \<^const>\<open>map_of\<close> (its keys are strings, as JSON object
  keys are).
\<close>

datatype pyval =
    PNone
  | PBool bool
  | PInt int
  | PFloat real
  | PStr string
  | PList "pyval list"
  | PDict "(string \<times> pyval) list"

text \<open>
  Exceptions are values.  Every constructor is a subclass of Python's \<^verbatim>\<open>Exception\<close>;
  \<open>OtherException\<close> stands for any further \<^verbatim>\<open>Exception\<close> subclass raised by a library
  (a connection error of \<^verbatim>\<open>requests\<close>, a JSON decoding error, an error of the bot
  library) and carries its \<^verbatim>\<open>str()\<close> text.  Signals that are not \<^verbatim>\<open>Exception\<close>s
  (\<^verbatim>\<open>KeyboardInterrupt\<close>) are the outside world killing the process and are not modelled.

  Modelled from the spec: \<^verbatim>\<open>exceptions.ResponseError\<close> is imported from a module of the
  repository that is not part of the sources at hand; it is taken to be an ordinary
  subclass of \<^verbatim>\<open>Exception\<close> constructed from one message, as the spec's error kinds are.
\<close>

datatype exn =
    TypeError string
  | KeyError string
  | IndexError string
  | AttributeError string
  | ResponseError string
  | HTTPError string
  | OtherException string

text \<open>\<^verbatim>\<open>str(error)\<close>, as \<^verbatim>\<open>f'{error}'\<close> computes it: the message the exception was
  built with.  For a \<^verbatim>\<open>KeyError\<close> it is the \<^verbatim>\<open>repr\<close> of the missing key, which is what
  the constructor \<open>KeyError\<close> carries here.\<close>

fun exn_str :: "exn \<Rightarrow> string" where
  "exn_str (TypeError m) = m"
| "exn_str (KeyError r) = r"
| "exn_str (IndexError m) = m"
| "exn_str (AttributeError m) = m"
| "exn_str (ResponseError m) = m"
| "exn_str (HTTPError m) = m"
| "exn_str (OtherException m) = m"

subsection \<open>The string literals of the module\<close>

text \<open>
  The literals come from lines 24 to 26 (verdicts), 66, 71, 74 (\<^verbatim>\<open>check_response\<close>), 87 and
  89 (\<^verbatim>\<open>parse_status\<close>) and 104 to 130 (\<^verbatim>\<open>main\<close>) of the module.
  In Latin transliteration the literals below read: \<open>verdict_approved\<close> "Rabota proverena:
  revyueru vsyo ponravilos. Ura!", \<open>verdict_reviewing\<close> "Rabota vzyata na proverku
  revyuerom.", \<open>verdict_rejected\<close> "Rabota proverena: u revyuera est zamechaniya.",
  \<open>msg_not_dict\<close> "Otvet API ne yavlyaetsya slovaryom", \<open>msg_no_homeworks\<close> "Oshibochnyi
  otvet API. Otsutstvuet spisok rabot", \<open>msg_bad_homeworks\<close> "Oshibochnyi otvet API.
  Nekorrektnyi format spiska rabot", \<open>msg_undocumented\<close> "Nedokumentirovannyi status
  domashnei raboty", \<open>msg_changed\<close> "Izmenilsya status proverki raboty" followed by a
  space and the opening double quote, \<open>msg_critical\<close> "Oshibka pri zagruzke peremennykh
  okruzheniya. Programma prinuditelno ostanovlena", \<open>msg_sent\<close> "Otpravleno soobshchenie
  dlya id ", \<open>msg_send_failed\<close> "Oshibka pri otpravke soobshcheniya dlya id ",
  \<open>msg_failure\<close> "Sboi v rabote programmy: ".
\<close>

definition verdict_approved :: string where
  "verdict_approved =
     [CHR 0xD0, CHR 0xA0, CHR 0xD0, CHR 0xB0, CHR 0xD0, CHR 0xB1, CHR 0xD0, CHR 0xBE, CHR 0xD1,
        CHR 0x82, CHR 0xD0, CHR 0xB0]
     @ '' ''
     @ [CHR 0xD0, CHR 0xBF, CHR 0xD1, CHR 0x80, CHR 0xD0, CHR 0xBE, CHR 0xD0, CHR 0xB2,
        CHR 0xD0, CHR 0xB5, CHR 0xD1, CHR 0x80, CHR 0xD0, CHR 0xB5, CHR 0xD0, CHR 0xBD,
        CHR 0xD0, CHR 0xB0]
     @ '': ''
     @ [CHR 0xD1, CHR 0x80, CHR 0xD0, CHR 0xB5, CHR 0xD0, CHR 0xB2, CHR 0xD1, CHR 0x8C,
        CHR 0xD1, CHR 0x8E, CHR 0xD0, CHR 0xB5, CHR 0xD1, CHR 0x80, CHR 0xD1, CHR 0x83]
     @ '' ''
     @ [CHR 0xD0, CHR 0xB2, CHR 0xD1, CHR 0x81, CHR 0xD1, CHR 0x91]
     @ '' ''
     @ [CHR 0xD0, CHR 0xBF, CHR 0xD0, CHR 0xBE, CHR 0xD0, CHR 0xBD, CHR 0xD1, CHR 0x80,
        CHR 0xD0, CHR 0xB0, CHR 0xD0, CHR 0xB2, CHR 0xD0, CHR 0xB8, CHR 0xD0, CHR 0xBB,
        CHR 0xD0, CHR 0xBE, CHR 0xD1, CHR 0x81, CHR 0xD1, CHR 0x8C]
     @ ''. ''
     @ [CHR 0xD0, CHR 0xA3, CHR 0xD1, CHR 0x80, CHR 0xD0, CHR 0xB0]
     @ ''!''"

definition verdict_reviewing :: string where
  "verdict_reviewing =
     [CHR 0xD0, CHR 0xA0, CHR 0xD0, CHR 0xB0, CHR 0xD0, CHR 0xB1, CHR 0xD0, CHR 0xBE, CHR 0xD1,
        CHR 0x82, CHR 0xD0, CHR 0xB0]
     @ '' ''
     @ [CHR 0xD0, CHR 0xB2, CHR 0xD0, CHR 0xB7, CHR 0xD1, CHR 0x8F, CHR 0xD1, CHR 0x82,
        CHR 0xD0, CHR 0xB0]
     @ '' ''
     @ [CHR 0xD0, CHR 0xBD, CHR 0xD0, CHR 0xB0]
     @ '' ''
     @ [CHR 0xD0, CHR 0xBF, CHR 0xD1, CHR 0x80, CHR 0xD0, CHR 0xBE, CHR 0xD0, CHR 0xB2,
        CHR 0xD0, CHR 0xB5, CHR 0xD1, CHR 0x80, CHR 0xD0, CHR 0xBA, CHR 0xD1, CHR 0x83]
     @ '' ''
     @ [CHR 0xD1, CHR 0x80, CHR 0xD0, CHR 0xB5, CHR 0xD0, CHR 0xB2, CHR 0xD1, CHR 0x8C,
        CHR 0xD1, CHR 0x8E, CHR 0xD0, CHR 0xB5, CHR 0xD1, CHR 0x80, CHR 0xD0, CHR 0xBE,
        CHR 0xD0, CHR 0xBC]
     @ ''.''"

definition verdict_rejected :: string where
  "verdict_rejected =
     [CHR 0xD0, CHR 0xA0, CHR 0xD0, CHR 0xB0, CHR 0xD0, CHR 0xB1, CHR 0xD0, CHR 0xBE, CHR 0xD1,
        CHR 0x82, CHR 0xD0, CHR 0xB0]
     @ '' ''
     @ [CHR 0xD0, CHR 0xBF, CHR 0xD1, CHR 0x80, CHR 0xD0, CHR 0xBE, CHR 0xD0, CHR 0xB2,
        CHR 0xD0, CHR 0xB5, CHR 0xD1, CHR 0x80, CHR 0xD0, CHR 0xB5, CHR 0xD0, CHR 0xBD,
        CHR 0xD0, CHR 0xB0]
     @ '': ''
     @ [CHR 0xD1, CHR 0x83]
     @ '' ''
     @ [CHR 0xD1, CHR 0x80, CHR 0xD0, CHR 0xB5, CHR 0xD0, CHR 0xB2, CHR 0xD1, CHR 0x8C,
        CHR 0xD1, CHR 0x8E, CHR 0xD0, CHR 0xB5, CHR 0xD1, CHR 0x80, CHR 0xD0, CHR 0xB0]
     @ '' ''
     @ [CHR 0xD0, CHR 0xB5, CHR 0xD1, CHR 0x81, CHR 0xD1, CHR 0x82, CHR 0xD1, CHR 0x8C]
     @ '' ''
     @ [CHR 0xD0, CHR 0xB7, CHR 0xD0, CHR 0xB0, CHR 0xD0, CHR 0xBC, CHR 0xD0, CHR 0xB5,
        CHR 0xD1, CHR 0x87, CHR 0xD0, CHR 0xB0, CHR 0xD0, CHR 0xBD, CHR 0xD0, CHR 0xB8,
        CHR 0xD1, CHR 0x8F]
     @ ''.''"

definition msg_not_dict :: string where
  "msg_not_dict =
     [CHR 0xD0, CHR 0x9E, CHR 0xD1, CHR 0x82, CHR 0xD0, CHR 0xB2, CHR 0xD0, CHR 0xB5, CHR 0xD1,
        CHR 0x82]
     @ '' API ''
     @ [CHR 0xD0, CHR 0xBD, CHR 0xD0, CHR 0xB5]
     @ '' ''
     @ [CHR 0xD1, CHR 0x8F, CHR 0xD0, CHR 0xB2, CHR 0xD0, CHR 0xBB, CHR 0xD1, CHR 0x8F,
        CHR 0xD0, CHR 0xB5, CHR 0xD1, CHR 0x82, CHR 0xD1, CHR 0x81, CHR 0xD1, CHR 0x8F]
     @ '' ''
     @ [CHR 0xD1, CHR 0x81, CHR 0xD0, CHR 0xBB, CHR 0xD0, CHR 0xBE, CHR 0xD0, CHR 0xB2,
        CHR 0xD0, CHR 0xB0, CHR 0xD1, CHR 0x80, CHR 0xD1, CHR 0x91, CHR 0xD0, CHR 0xBC]"

definition msg_no_homeworks :: string where
  "msg_no_homeworks =
     [CHR 0xD0, CHR 0x9E, CHR 0xD1, CHR 0x88, CHR 0xD0, CHR 0xB8, CHR 0xD0, CHR 0xB1, CHR 0xD0,
        CHR 0xBE, CHR 0xD1, CHR 0x87, CHR 0xD0, CHR 0xBD, CHR 0xD1, CHR 0x8B, CHR 0xD0,
        CHR 0xB9]
     @ '' ''
     @ [CHR 0xD0, CHR 0xBE, CHR 0xD1, CHR 0x82, CHR 0xD0, CHR 0xB2, CHR 0xD0, CHR 0xB5,
        CHR 0xD1, CHR 0x82]
     @ '' API. ''
     @ [CHR 0xD0, CHR 0x9E, CHR 0xD1, CHR 0x82, CHR 0xD1, CHR 0x81, CHR 0xD1, CHR 0x83,
        CHR 0xD1, CHR 0x82, CHR 0xD1, CHR 0x81, CHR 0xD1, CHR 0x82, CHR 0xD0, CHR 0xB2,
        CHR 0xD1, CHR 0x83, CHR 0xD0, CHR 0xB5, CHR 0xD1, CHR 0x82]
     @ '' ''
     @ [CHR 0xD1, CHR 0x81, CHR 0xD0, CHR 0xBF, CHR 0xD0, CHR 0xB8, CHR 0xD1, CHR 0x81,
        CHR 0xD0, CHR 0xBE, CHR 0xD0, CHR 0xBA]
     @ '' ''
     @ [CHR 0xD1, CHR 0x80, CHR 0xD0, CHR 0xB0, CHR 0xD0, CHR 0xB1, CHR 0xD0, CHR 0xBE,
        CHR 0xD1, CHR 0x82]"

definition msg_bad_homeworks :: string where
  "msg_bad_homeworks =
     [CHR 0xD0, CHR 0x9E, CHR 0xD1, CHR 0x88, CHR 0xD0, CHR 0xB8, CHR 0xD0, CHR 0xB1, CHR 0xD0,
        CHR 0xBE, CHR 0xD1, CHR 0x87, CHR 0xD0, CHR 0xBD, CHR 0xD1, CHR 0x8B, CHR 0xD0,
        CHR 0xB9]
     @ '' ''
     @ [CHR 0xD0, CHR 0xBE, CHR 0xD1, CHR 0x82, CHR 0xD0, CHR 0xB2, CHR 0xD0, CHR 0xB5,
        CHR 0xD1, CHR 0x82]
     @ '' API. ''
     @ [CHR 0xD0, CHR 0x9D, CHR 0xD0, CHR 0xB5, CHR 0xD0, CHR 0xBA, CHR 0xD0, CHR 0xBE,
        CHR 0xD1, CHR 0x80, CHR 0xD1, CHR 0x80, CHR 0xD0, CHR 0xB5, CHR 0xD0, CHR 0xBA,
        CHR 0xD1, CHR 0x82, CHR 0xD0, CHR 0xBD, CHR 0xD1, CHR 0x8B, CHR 0xD0, CHR 0xB9]
     @ '' ''
     @ [CHR 0xD1, CHR 0x84, CHR 0xD0, CHR 0xBE, CHR 0xD1, CHR 0x80, CHR 0xD0, CHR 0xBC,
        CHR 0xD0, CHR 0xB0, CHR 0xD1, CHR 0x82]
     @ '' ''
     @ [CHR 0xD1, CHR 0x81, CHR 0xD0, CHR 0xBF, CHR 0xD0, CHR 0xB8, CHR 0xD1, CHR 0x81,
        CHR 0xD0, CHR 0xBA, CHR 0xD0, CHR 0xB0]
     @ '' ''
     @ [CHR 0xD1, CHR 0x80, CHR 0xD0, CHR 0xB0, CHR 0xD0, CHR 0xB1, CHR 0xD0, CHR 0xBE,
        CHR 0xD1, CHR 0x82]"

definition msg_undocumented :: string where
  "msg_undocumented =
     [CHR 0xD0, CHR 0x9D, CHR 0xD0, CHR 0xB5, CHR 0xD0, CHR 0xB4, CHR 0xD0, CHR 0xBE, CHR 0xD0,
        CHR 0xBA, CHR 0xD1, CHR 0x83, CHR 0xD0, CHR 0xBC, CHR 0xD0, CHR 0xB5, CHR 0xD0,
        CHR 0xBD, CHR 0xD1, CHR 0x82, CHR 0xD0, CHR 0xB8, CHR 0xD1, CHR 0x80, CHR 0xD0,
        CHR 0xBE, CHR 0xD0, CHR 0xB2, CHR 0xD0, CHR 0xB0, CHR 0xD0, CHR 0xBD, CHR 0xD0,
        CHR 0xBD, CHR 0xD1, CHR 0x8B, CHR 0xD0, CHR 0xB9]
     @ '' ''
     @ [CHR 0xD1, CHR 0x81, CHR 0xD1, CHR 0x82, CHR 0xD0, CHR 0xB0, CHR 0xD1, CHR 0x82,
        CHR 0xD1, CHR 0x83, CHR 0xD1, CHR 0x81]
     @ '' ''
     @ [CHR 0xD0, CHR 0xB4, CHR 0xD0, CHR 0xBE, CHR 0xD0, CHR 0xBC, CHR 0xD0, CHR 0xB0,
        CHR 0xD1, CHR 0x88, CHR 0xD0, CHR 0xBD, CHR 0xD0, CHR 0xB5, CHR 0xD0, CHR 0xB9]
     @ '' ''
     @ [CHR 0xD1, CHR 0x80, CHR 0xD0, CHR 0xB0, CHR 0xD0, CHR 0xB1, CHR 0xD0, CHR 0xBE,
        CHR 0xD1, CHR 0x82, CHR 0xD1, CHR 0x8B]"

definition msg_changed :: string where
  "msg_changed =
     [CHR 0xD0, CHR 0x98, CHR 0xD0, CHR 0xB7, CHR 0xD0, CHR 0xBC, CHR 0xD0, CHR 0xB5, CHR 0xD0,
        CHR 0xBD, CHR 0xD0, CHR 0xB8, CHR 0xD0, CHR 0xBB, CHR 0xD1, CHR 0x81, CHR 0xD1,
        CHR 0x8F]
     @ '' ''
     @ [CHR 0xD1, CHR 0x81, CHR 0xD1, CHR 0x82, CHR 0xD0, CHR 0xB0, CHR 0xD1, CHR 0x82,
        CHR 0xD1, CHR 0x83, CHR 0xD1, CHR 0x81]
     @ '' ''
     @ [CHR 0xD0, CHR 0xBF, CHR 0xD1, CHR 0x80, CHR 0xD0, CHR 0xBE, CHR 0xD0, CHR 0xB2,
        CHR 0xD0, CHR 0xB5, CHR 0xD1, CHR 0x80, CHR 0xD0, CHR 0xBA, CHR 0xD0, CHR 0xB8]
     @ '' ''
     @ [CHR 0xD1, CHR 0x80, CHR 0xD0, CHR 0xB0, CHR 0xD0, CHR 0xB1, CHR 0xD0, CHR 0xBE,
        CHR 0xD1, CHR 0x82, CHR 0xD1, CHR 0x8B]
     @ '' ''
     @ [CHR 0x22]"

definition msg_critical :: string where
  "msg_critical =
     [CHR 0xD0, CHR 0x9E, CHR 0xD1, CHR 0x88, CHR 0xD0, CHR 0xB8, CHR 0xD0, CHR 0xB1, CHR 0xD0,
        CHR 0xBA, CHR 0xD0, CHR 0xB0]
     @ '' ''
     @ [CHR 0xD0, CHR 0xBF, CHR 0xD1, CHR 0x80, CHR 0xD0, CHR 0xB8]
     @ '' ''
     @ [CHR 0xD0, CHR 0xB7, CHR 0xD0, CHR 0xB0, CHR 0xD0, CHR 0xB3, CHR 0xD1, CHR 0x80,
        CHR 0xD1, CHR 0x83, CHR 0xD0, CHR 0xB7, CHR 0xD0, CHR 0xBA, CHR 0xD0, CHR 0xB5]
     @ '' ''
     @ [CHR 0xD0, CHR 0xBF, CHR 0xD0, CHR 0xB5, CHR 0xD1, CHR 0x80, CHR 0xD0, CHR 0xB5,
        CHR 0xD0, CHR 0xBC, CHR 0xD0, CHR 0xB5, CHR 0xD0, CHR 0xBD, CHR 0xD0, CHR 0xBD,
        CHR 0xD1, CHR 0x8B, CHR 0xD1, CHR 0x85]
     @ '' ''
     @ [CHR 0xD0, CHR 0xBE, CHR 0xD0, CHR 0xBA, CHR 0xD1, CHR 0x80, CHR 0xD1, CHR 0x83,
        CHR 0xD0, CHR 0xB6, CHR 0xD0, CHR 0xB5, CHR 0xD0, CHR 0xBD, CHR 0xD0, CHR 0xB8,
        CHR 0xD1, CHR 0x8F]
     @ ''. ''
     @ [CHR 0xD0, CHR 0x9F, CHR 0xD1, CHR 0x80, CHR 0xD0, CHR 0xBE, CHR 0xD0, CHR 0xB3,
        CHR 0xD1, CHR 0x80, CHR 0xD0, CHR 0xB0, CHR 0xD0, CHR 0xBC, CHR 0xD0, CHR 0xBC,
        CHR 0xD0, CHR 0xB0]
     @ '' ''
     @ [CHR 0xD0, CHR 0xBF, CHR 0xD1, CHR 0x80, CHR 0xD0, CHR 0xB8, CHR 0xD0, CHR 0xBD,
        CHR 0xD1, CHR 0x83, CHR 0xD0, CHR 0xB4, CHR 0xD0, CHR 0xB8, CHR 0xD1, CHR 0x82,
        CHR 0xD0, CHR 0xB5, CHR 0xD0, CHR 0xBB, CHR 0xD1, CHR 0x8C, CHR 0xD0, CHR 0xBD,
        CHR 0xD0, CHR 0xBE]
     @ '' ''
     @ [CHR 0xD0, CHR 0xBE, CHR 0xD1, CHR 0x81, CHR 0xD1, CHR 0x82, CHR 0xD0, CHR 0xB0,
        CHR 0xD0, CHR 0xBD, CHR 0xD0, CHR 0xBE, CHR 0xD0, CHR 0xB2, CHR 0xD0, CHR 0xBB,
        CHR 0xD0, CHR 0xB5, CHR 0xD0, CHR 0xBD, CHR 0xD0, CHR 0xB0]"

definition msg_sent :: string where
  "msg_sent =
     [CHR 0xD0, CHR 0x9E, CHR 0xD1, CHR 0x82, CHR 0xD0, CHR 0xBF, CHR 0xD1, CHR 0x80, CHR 0xD0,
        CHR 0xB0, CHR 0xD0, CHR 0xB2, CHR 0xD0, CHR 0xBB, CHR 0xD0, CHR 0xB5, CHR 0xD0,
        CHR 0xBD, CHR 0xD0, CHR 0xBE]
     @ '' ''
     @ [CHR 0xD1, CHR 0x81, CHR 0xD0, CHR 0xBE, CHR 0xD0, CHR 0xBE, CHR 0xD0, CHR 0xB1,
        CHR 0xD1, CHR 0x89, CHR 0xD0, CHR 0xB5, CHR 0xD0, CHR 0xBD, CHR 0xD0, CHR 0xB8,
        CHR 0xD0, CHR 0xB5]
     @ '' ''
     @ [CHR 0xD0, CHR 0xB4, CHR 0xD0, CHR 0xBB, CHR 0xD1, CHR 0x8F]
     @ '' id ''"

definition msg_send_failed :: string where
  "msg_send_failed =
     [CHR 0xD0, CHR 0x9E, CHR 0xD1, CHR 0x88, CHR 0xD0, CHR 0xB8, CHR 0xD0, CHR 0xB1, CHR 0xD0,
        CHR 0xBA, CHR 0xD0, CHR 0xB0]
     @ '' ''
     @ [CHR 0xD0, CHR 0xBF, CHR 0xD1, CHR 0x80, CHR 0xD0, CHR 0xB8]
     @ '' ''
     @ [CHR 0xD0, CHR 0xBE, CHR 0xD1, CHR 0x82, CHR 0xD0, CHR 0xBF, CHR 0xD1, CHR 0x80,
        CHR 0xD0, CHR 0xB0, CHR 0xD0, CHR 0xB2, CHR 0xD0, CHR 0xBA, CHR 0xD0, CHR 0xB5]
     @ '' ''
     @ [CHR 0xD1, CHR 0x81, CHR 0xD0, CHR 0xBE, CHR 0xD0, CHR 0xBE, CHR 0xD0, CHR 0xB1,
        CHR 0xD1, CHR 0x89, CHR 0xD0, CHR 0xB5, CHR 0xD0, CHR 0xBD, CHR 0xD0, CHR 0xB8,
        CHR 0xD1, CHR 0x8F]
     @ '' ''
     @ [CHR 0xD0, CHR 0xB4, CHR 0xD0, CHR 0xBB, CHR 0xD1, CHR 0x8F]
     @ '' id ''"

definition msg_failure :: string where
  "msg_failure =
     [CHR 0xD0, CHR 0xA1, CHR 0xD0, CHR 0xB1, CHR 0xD0, CHR 0xBE, CHR 0xD0, CHR 0xB9]
     @ '' ''
     @ [CHR 0xD0, CHR 0xB2]
     @ '' ''
     @ [CHR 0xD1, CHR 0x80, CHR 0xD0, CHR 0xB0, CHR 0xD0, CHR 0xB1, CHR 0xD0, CHR 0xBE,
        CHR 0xD1, CHR 0x82, CHR 0xD0, CHR 0xB5]
     @ '' ''
     @ [CHR 0xD0, CHR 0xBF, CHR 0xD1, CHR 0x80, CHR 0xD0, CHR 0xBE, CHR 0xD0, CHR 0xB3,
        CHR 0xD1, CHR 0x80, CHR 0xD0, CHR 0xB0, CHR 0xD0, CHR 0xBC, CHR 0xD0, CHR 0xBC,
        CHR 0xD1, CHR 0x8B]
     @ '': ''"

subsection \<open>The operations of Python the module uses\<close>

text \<open>Decimal text of an integer, as \<^verbatim>\<open>str\<close> gives it.\<close>

definition digit :: "nat \<Rightarrow> char" where
  "digit d =
     (if d = 0 then CHR ''0'' else if d = 1 then CHR ''1'' else if d = 2 then CHR ''2''
      else if d = 3 then CHR ''3'' else if d = 4 then CHR ''4'' else if d = 5 then CHR ''5''
      else if d = 6 then CHR ''6'' else if d = 7 then CHR ''7'' else if d = 8 then CHR ''8''
      else CHR ''9'')"

fun str_nat :: "nat \<Rightarrow> string" where
  "str_nat n = (if n < 10 then [digit n] else str_nat (n div 10) @ [digit (n mod 10)])"

definition str_int :: "int \<Rightarrow> string" where
  "str_int i = (if i < 0 then ''-'' @ str_nat (nat (- i)) else str_nat (nat i))"

text \<open>
  What an f-string puts in place of \<^verbatim>\<open>{v}\<close>.  A text is inserted as it is; for a float, a
  list and a dictionary Python inserts the \<^verbatim>\<open>repr\<close>, which is left as the parameter
  \<open>repr\<close>: nothing below depends on it.
\<close>

definition py_str :: "(pyval \<Rightarrow> string) \<Rightarrow> pyval \<Rightarrow> string" where
  "py_str repr v =
     (case v of
        PStr s \<Rightarrow> s
      | PNone \<Rightarrow> ''None''
      | PBool b \<Rightarrow> (if b then ''True'' else ''False'')
      | PInt i \<Rightarrow> str_int i
      | _ \<Rightarrow> repr v)"

fun type_name :: "pyval \<Rightarrow> string" where
  "type_name PNone = ''NoneType''"
| "type_name (PBool _) = ''bool''"
| "type_name (PInt _) = ''int''"
| "type_name (PFloat _) = ''float''"
| "type_name (PStr _) = ''str''"
| "type_name (PList _) = ''list''"
| "type_name (PDict _) = ''dict''"

fun isinstance_dict :: "pyval \<Rightarrow> bool" where
  "isinstance_dict (PDict _) = True"
| "isinstance_dict _ = False"

fun isinstance_list :: "pyval \<Rightarrow> bool" where
  "isinstance_list (PList _) = True"
| "isinstance_list _ = False"

fun isinstance_str :: "pyval \<Rightarrow> bool" where
  "isinstance_str (PStr _) = True"
| "isinstance_str _ = False"

text \<open>\<^verbatim>\<open>bool\<close> is a subclass of \<^verbatim>\<open>int\<close>, so \<^verbatim>\<open>isinstance(True, int)\<close> holds.\<close>

fun isinstance_int :: "pyval \<Rightarrow> bool" where
  "isinstance_int (PInt _) = True"
| "isinstance_int (PBool _) = True"
| "isinstance_int _ = False"

fun is_None :: "pyval \<Rightarrow> bool" where
  "is_None PNone = True"
| "is_None _ = False"

text \<open>\<^verbatim>\<open>obj.get(key)\<close>: the value, or \<^verbatim>\<open>None\<close> for a missing key; only a dictionary has
  the method.\<close>

fun py_get :: "pyval \<Rightarrow> string \<Rightarrow> exn + pyval" where
  "py_get (PDict d) k = Inr (case map_of d k of None \<Rightarrow> PNone | Some v \<Rightarrow> v)"
| "py_get v k =
     Inl (AttributeError ([CHR 0x27] @ type_name v @ [CHR 0x27]
                          @ '' object has no attribute '' @ [CHR 0x27] @ ''get'' @ [CHR 0x27]))"

text \<open>The \<^verbatim>\<open>repr\<close> of a text made of plain characters (no quote, no backslash, nothing
  unprintable), such as the two keys the module reads: the text in single quotes.\<close>

definition repr_key :: "string \<Rightarrow> string" where
  "repr_key k = [CHR 0x27] @ k @ [CHR 0x27]"

text \<open>\<^verbatim>\<open>obj[key]\<close> for a text key (message wording of CPython 3.11).\<close>

fun subscript :: "pyval \<Rightarrow> string \<Rightarrow> exn + pyval" where
  "subscript (PDict d) k =
     (case map_of d k of None \<Rightarrow> Inl (KeyError (repr_key k)) | Some v \<Rightarrow> Inr v)"
| "subscript (PList _) k = Inl (TypeError ''list indices must be integers or slices, not str'')"
| "subscript (PStr _) k =
     Inl (TypeError (''string indices must be integers, not '' @ [CHR 0x27] @ ''str'' @ [CHR 0x27]))"
| "subscript v k =
     Inl (TypeError ([CHR 0x27] @ type_name v @ [CHR 0x27] @ '' object is not subscriptable''))"

text \<open>\<^verbatim>\<open>obj[0]\<close>.  The first character of a text is its first byte with the UTF-8
  continuation bytes that follow it.\<close>

fun index0 :: "pyval \<Rightarrow> exn + pyval" where
  "index0 (PList []) = Inl (IndexError ''list index out of range'')"
| "index0 (PList (x # xs)) = Inr x"
| "index0 (PStr []) = Inl (IndexError ''string index out of range'')"
| "index0 (PStr (c # cs)) =
     Inr (PStr (c # takeWhile (\<lambda>b. (128::nat) \<le> of_char b \<and> of_char b < (192::nat)) cs))"
| "index0 (PDict d) = Inl (KeyError ''0'')"
| "index0 v =
     Inl (TypeError ([CHR 0x27] @ type_name v @ [CHR 0x27] @ '' object is not subscriptable''))"

text \<open>Truth value of an object in \<^verbatim>\<open>if obj:\<close>.\<close>

fun truthy :: "pyval \<Rightarrow> bool" where
  "truthy PNone = False"
| "truthy (PBool b) = b"
| "truthy (PInt i) = (i \<noteq> 0)"
| "truthy (PFloat r) = (r \<noteq> 0)"
| "truthy (PStr s) = (s \<noteq> [])"
| "truthy (PList xs) = (xs \<noteq> [])"
| "truthy (PDict d) = (d \<noteq> [])"

section \<open>The module\<close>

subsection \<open>Globals\<close>

text \<open>The three credentials are module globals read from the environment
  (\<^verbatim>\<open>os.getenv\<close> gives \<^verbatim>\<open>None\<close> or a text; the code also allows an integer chat id).\<close>

record config =
  PRACTICUM_TOKEN :: pyval
  TELEGRAM_TOKEN :: pyval
  TELEGRAM_CHAT_ID :: pyval

definition RETRY_TIME :: int where
  "RETRY_TIME = 600"

definition ENDPOINT :: string where
  "ENDPOINT = ''https://practicum.yandex.ru/api/user_api/homework_statuses/''"

definition HOMEWORK_VERDICTS :: "(string \<times> string) list" where
  "HOMEWORK_VERDICTS =
     [(''approved'', verdict_approved),
      (''reviewing'', verdict_reviewing),
      (''rejected'', verdict_rejected)]"

subsection \<open>\<^verbatim>\<open>check_response\<close>\<close>

text \<open>Lines 63 to 77.  The three \<^verbatim>\<open>raise\<close> statements are the three \<open>Inl\<close> branches.\<close>

definition check_response :: "pyval \<Rightarrow> exn + pyval" where
  "check_response response =
     (if \<not> isinstance_dict response then Inl (TypeError msg_not_dict)
      else
        (case py_get response ''homeworks'' of
           Inl e \<Rightarrow> Inl e
         | Inr homeworks \<Rightarrow>
             if is_None homeworks then Inl (ResponseError msg_no_homeworks)
             else if \<not> isinstance_list homeworks then Inl (TypeError msg_bad_homeworks)
             else Inr homeworks))"

subsection \<open>\<^verbatim>\<open>parse_status\<close>\<close>

text \<open>Lines 80 to 89.  \<^verbatim>\<open>HOMEWORK_VERDICTS.get(homework_status)\<close>: a list or a dictionary cannot be hashed and
  makes the lookup raise; any other value that is not one of the three keys gives
  \<^verbatim>\<open>None\<close>.\<close>

fun verdicts_get :: "pyval \<Rightarrow> exn + string option" where
  "verdicts_get (PStr s) = Inr (map_of HOMEWORK_VERDICTS s)"
| "verdicts_get (PList xs) =
     Inl (TypeError (''unhashable type: '' @ [CHR 0x27] @ ''list'' @ [CHR 0x27]))"
| "verdicts_get (PDict d) =
     Inl (TypeError (''unhashable type: '' @ [CHR 0x27] @ ''dict'' @ [CHR 0x27]))"
| "verdicts_get v = Inr None"

definition parse_status :: "(pyval \<Rightarrow> string) \<Rightarrow> pyval \<Rightarrow> exn + string" where
  "parse_status repr homework =
     (case subscript homework ''homework_name'' of
        Inl e \<Rightarrow> Inl e
      | Inr homework_name \<Rightarrow>
          (case subscript homework ''status'' of
             Inl e \<Rightarrow> Inl e
           | Inr homework_status \<Rightarrow>
               (case verdicts_get homework_status of
                  Inl e \<Rightarrow> Inl e
                | Inr None \<Rightarrow> Inl (ResponseError msg_undocumented)
                | Inr (Some verdict) \<Rightarrow>
                    Inr (msg_changed @ py_str repr homework_name @ [CHR 0x22] @ ''. ''
                         @ verdict))))"

subsection \<open>\<^verbatim>\<open>check_tokens\<close>\<close>

text \<open>Lines 92 to 98.\<close>

definition check_tokens :: "config \<Rightarrow> bool" where
  "check_tokens cfg =
     (isinstance_str (PRACTICUM_TOKEN cfg) \<and> isinstance_str (TELEGRAM_TOKEN cfg)
      \<and> (isinstance_str (TELEGRAM_CHAT_ID cfg) \<or> isinstance_int (TELEGRAM_CHAT_ID cfg)))"

subsection \<open>Effects\<close>

text \<open>
  What the program does to the outside world is recorded as a trace of events: the GET
  request it issues (URL, headers, the \<^verbatim>\<open>from_date\<close> parameter), each call of
  \<^verbatim>\<open>bot.sendMessage\<close> (chat id, text), each log line and each \<^verbatim>\<open>time.sleep\<close>.
  A computation with effects returns its trace together with either its value or the
  exception it raised.
\<close>

datatype event =
    HttpGet string "(string \<times> string) list" pyval
  | SendMessage pyval string
  | LogInfo string
  | LogError string
  | LogCritical string
  | Sleep int

type_synonym 'a io = "(exn + 'a) \<times> event list"

definition io_return :: "'a \<Rightarrow> 'a io" where
  "io_return x = (Inr x, [])"

definition io_lift :: "exn + 'a \<Rightarrow> 'a io" where
  "io_lift r = (r, [])"

definition io_emit :: "event \<Rightarrow> unit io" where
  "io_emit ev = (Inr (), [ev])"

text \<open>Sequencing of two statements: an exception of the first skips the second.\<close>

definition io_bind :: "'a io \<Rightarrow> ('a \<Rightarrow> 'b io) \<Rightarrow> 'b io" where
  "io_bind m f =
     (case m of
        (Inl e, evs) \<Rightarrow> (Inl e, evs)
      | (Inr x, evs) \<Rightarrow> (case f x of (r, evs') \<Rightarrow> (r, evs @ evs')))"

subsection \<open>\<^verbatim>\<open>send_message\<close>\<close>

text \<open>Lines 30 to 38.  The bot is given by what its \<^verbatim>\<open>sendMessage\<close> does with a chat id and a text: it
  returns, or raises.  (The parameter \<^verbatim>\<open>bot\<close> is written \<open>bot'\<close>.)\<close>

type_synonym telegram_bot = "pyval \<Rightarrow> string \<Rightarrow> exn + unit"

record send_result =
  success :: bool
  error :: "exn option"

definition send_message :: "config \<Rightarrow> telegram_bot \<Rightarrow> string \<Rightarrow> send_result io" where
  "send_message cfg bot' message =
     (case bot' (TELEGRAM_CHAT_ID cfg) message of
        Inr _ \<Rightarrow> (Inr \<lparr>success = True, error = None\<rparr>,
                  [SendMessage (TELEGRAM_CHAT_ID cfg) message])
      | Inl err \<Rightarrow> (Inr \<lparr>success = False, error = Some err\<rparr>,
                    [SendMessage (TELEGRAM_CHAT_ID cfg) message]))"

subsection \<open>\<^verbatim>\<open>get_api_answer\<close>\<close>

text \<open>
  The object \<^verbatim>\<open>requests.get\<close> returns: whether it is a \<^verbatim>\<open>requests.models.Response\<close>
  (the tests pass another class), its status code, reason and URL, and what its
  \<^verbatim>\<open>json()\<close> method does (the parsed body, or the exception of the decoder).
\<close>

record http_response =
  is_Response :: bool
  status_code :: int
  reason :: "string option"
  url :: string
  json :: "exn + pyval"

text \<open>
  \<^verbatim>\<open>requests.models.Response.raise_for_status\<close>, a method of the \<^verbatim>\<open>requests\<close> library:
  it raises \<^verbatim>\<open>HTTPError\<close> for a status code from 400 to 599 and returns otherwise.
\<close>

definition raise_for_status :: "http_response \<Rightarrow> exn + unit" where
  "raise_for_status r =
     (let reason_text = (case reason r of None \<Rightarrow> ''None'' | Some t \<Rightarrow> t) in
      if 400 \<le> status_code r \<and> status_code r < 500 then
        Inl (HTTPError (str_int (status_code r) @ '' Client Error: '' @ reason_text
                        @ '' for url: '' @ url r))
      else if 500 \<le> status_code r \<and> status_code r < 600 then
        Inl (HTTPError (str_int (status_code r) @ '' Server Error: '' @ reason_text
                        @ '' for url: '' @ url r))
      else Inr ())"

definition HEADERS :: "(pyval \<Rightarrow> string) \<Rightarrow> config \<Rightarrow> (string \<times> string) list" where
  "HEADERS repr cfg = [(''Authorization'', ''OAuth '' @ py_str repr (PRACTICUM_TOKEN cfg))]"

text \<open>Lines 41 to 60.  \<open>requests_get\<close> is what \<^verbatim>\<open>requests.get\<close> does for a given
  \<^verbatim>\<open>from_date\<close>: it raises (no connection), or returns a response object.  For an object
  of another class than \<^verbatim>\<open>Response\<close> the code sets \<^verbatim>\<open>reason\<close> to \<^verbatim>\<open>None\<close> and binds the
  library's \<^verbatim>\<open>raise_for_status\<close> to it.\<close>

definition get_api_answer ::
  "(pyval \<Rightarrow> string) \<Rightarrow> config \<Rightarrow> (pyval \<Rightarrow> exn + http_response) \<Rightarrow> pyval \<Rightarrow> pyval io" where
  "get_api_answer repr cfg requests_get timestamp =
     io_bind (io_emit (HttpGet ENDPOINT (HEADERS repr cfg) timestamp)) (\<lambda>_.
     io_bind (io_lift (requests_get timestamp)) (\<lambda>response.
     io_bind (io_return (if \<not> is_Response response then response\<lparr>reason := None\<rparr>
                         else response)) (\<lambda>response.
     io_bind (io_lift (raise_for_status response)) (\<lambda>_.
     io_lift (json response)))))"

subsection \<open>\<^verbatim>\<open>main\<close>\<close>

text \<open>The two variables of the loop.\<close>

record state =
  timestamp :: pyval
  last_sent_error :: string

text \<open>What the outside world does during one iteration of the loop.\<close>

record env =
  requests_get :: "pyval \<Rightarrow> exn + http_response"
  bot_sendMessage :: telegram_bot

text \<open>The body of the \<^verbatim>\<open>try\<close> block, lines 113 to 128; its value is the new
  \<^verbatim>\<open>timestamp\<close>.\<close>

definition try_body :: "(pyval \<Rightarrow> string) \<Rightarrow> config \<Rightarrow> env \<Rightarrow> pyval \<Rightarrow> pyval io" where
  "try_body repr cfg env ts =
     io_bind (get_api_answer repr cfg (requests_get env) ts) (\<lambda>response.
     io_bind (io_lift (check_response response)) (\<lambda>_.
     io_bind (io_lift (py_get response ''homeworks'')) (\<lambda>homeworks.
     io_bind
       (if truthy homeworks then
          io_bind (io_lift (index0 homeworks)) (\<lambda>homework.
          io_bind (io_lift (parse_status repr homework)) (\<lambda>msg.
          io_bind (send_message cfg (bot_sendMessage env) msg) (\<lambda>sent_msg_result.
            if success sent_msg_result then
              io_emit (LogInfo (msg_sent @ py_str repr (TELEGRAM_CHAT_ID cfg)))
            else
              io_emit (LogError (msg_send_failed @ py_str repr (TELEGRAM_CHAT_ID cfg)
                                 @ '' ('' @ (case error sent_msg_result of
                                              None \<Rightarrow> ''None''
                                            | Some e \<Rightarrow> exn_str e)
                                 @ '')'')))))
        else io_return ()) (\<lambda>_.
     io_lift (py_get response ''current_date'')))))"

text \<open>The \<^verbatim>\<open>except Exception as error\<close> clause, lines 129 to 134; its value is the state
  it leaves.\<close>

definition handler :: "config \<Rightarrow> env \<Rightarrow> state \<Rightarrow> exn \<Rightarrow> state io" where
  "handler cfg env s err =
     (let msg = msg_failure @ exn_str err in
      io_bind
        (if msg \<noteq> last_sent_error s then
           io_bind (send_message cfg (bot_sendMessage env) msg) (\<lambda>_.
           io_return (s\<lparr>last_sent_error := msg\<rparr>))
         else io_return s) (\<lambda>s'.
      io_bind (io_emit (LogError msg)) (\<lambda>_.
      io_return s')))"

text \<open>One pass through the body of \<^verbatim>\<open>while True\<close>: \<^verbatim>\<open>try\<close>, \<^verbatim>\<open>except\<close>, and the
  \<^verbatim>\<open>finally\<close> clause, which sleeps whatever happened before, also when the handler
  itself raises.\<close>

definition iteration :: "(pyval \<Rightarrow> string) \<Rightarrow> config \<Rightarrow> env \<Rightarrow> state \<Rightarrow> state io" where
  "iteration repr cfg env s =
     (case try_body repr cfg env (timestamp s) of
        (Inr ts, evs) \<Rightarrow> (Inr (s\<lparr>timestamp := ts\<rparr>), evs @ [Sleep RETRY_TIME])
      | (Inl err, evs) \<Rightarrow>
          (case handler cfg env s err of
             (r, evs') \<Rightarrow> (r, evs @ evs' @ [Sleep RETRY_TIME])))"

text \<open>
  The loop has no exit of its own.  \<open>run\<close> is its course through the iterations whose
  outside worlds are listed: it ends early only if an exception leaves an iteration.
\<close>

fun run :: "(pyval \<Rightarrow> string) \<Rightarrow> config \<Rightarrow> env list \<Rightarrow> state \<Rightarrow> state io" where
  "run repr cfg [] s = (Inr s, [])"
| "run repr cfg (env # envs) s = io_bind (iteration repr cfg env s) (run repr cfg envs)"

text \<open>
  The state of the process after the listed iterations: it has called \<^verbatim>\<open>exit\<close> with a
  code, or an exception has left \<^verbatim>\<open>main\<close> uncaught, or it is still in the loop.
  \<open>telegram_Bot\<close> is what the constructor \<^verbatim>\<open>telegram.Bot(token=...)\<close> does with the token
  (\<open>None\<close>: it returns the bot), \<open>now\<close> is \<^verbatim>\<open>int(time.time())\<close>.
\<close>

datatype outcome = Exit int | Uncaught exn | Running state

definition main ::
  "(pyval \<Rightarrow> string) \<Rightarrow> config \<Rightarrow> (pyval \<Rightarrow> exn option) \<Rightarrow> int \<Rightarrow> env list
     \<Rightarrow> outcome \<times> event list" where
  "main repr cfg telegram_Bot now envs =
     (if \<not> check_tokens cfg then (Exit (- 1), [LogCritical msg_critical])
      else
        (case telegram_Bot (TELEGRAM_TOKEN cfg) of
           Some e \<Rightarrow> (Uncaught e, [])
         | None \<Rightarrow>
             (case run repr cfg envs \<lparr>timestamp = PInt now, last_sent_error = []\<rparr> of
                (Inl e, evs) \<Rightarrow> (Uncaught e, evs)
              | (Inr s, evs) \<Rightarrow> (Running s, evs))))"

text \<open>Projections of a trace.\<close>

fun sent_messages :: "event list \<Rightarrow> (pyval \<times> string) list" where
  "sent_messages [] = []"
| "sent_messages (SendMessage c m # evs) = (c, m) # sent_messages evs"
| "sent_messages (_ # evs) = sent_messages evs"

fun logged_errors :: "event list \<Rightarrow> string list" where
  "logged_errors [] = []"
| "logged_errors (LogError m # evs) = m # logged_errors evs"
| "logged_errors (_ # evs) = logged_errors evs"

fun sleeps :: "event list \<Rightarrow> int list" where
  "sleeps [] = []"
| "sleeps (Sleep n # evs) = n # sleeps evs"
| "sleeps (_ # evs) = sleeps evs"

text \<open>The text \<^verbatim>\<open>str(error)\<close> of the exception with which the \<^verbatim>\<open>try\<close> block of an
  iteration ends, if it ends with one.\<close>

definition failure_text :: "(pyval \<Rightarrow> string) \<Rightarrow> config \<Rightarrow> env \<Rightarrow> pyval \<Rightarrow> string option" where
  "failure_text repr cfg env ts =
     (case fst (try_body repr cfg env ts) of Inl e \<Rightarrow> Some (exn_str e) | Inr _ \<Rightarrow> None)"

text \<open>The spec's reading of \<^verbatim>\<open>check_tokens\<close>, written from its words for comparison with
  the code: every credential is a non-empty text, the chat id possibly an integer
  instead.\<close>

fun nonempty_str :: "pyval \<Rightarrow> bool" where
  "nonempty_str (PStr s) = (s \<noteq> [])"
| "nonempty_str _ = False"

definition spec_credentials_present :: "config \<Rightarrow> bool" where
  "spec_credentials_present cfg =
     (nonempty_str (PRACTICUM_TOKEN cfg) \<and> nonempty_str (TELEGRAM_TOKEN cfg)
      \<and> (nonempty_str (TELEGRAM_CHAT_ID cfg) \<or> isinstance_int (TELEGRAM_CHAT_ID cfg)))"

subsection \<open>Example inputs\<close>

text \<open>Concrete credentials, responses and outside worlds, used to instantiate the
  properties below.\<close>

definition example_config :: config where
  "example_config =
     \<lparr>PRACTICUM_TOKEN = PStr ''practicum'', TELEGRAM_TOKEN = PStr ''telegram'',
      TELEGRAM_CHAT_ID = PInt 42\<rparr>"

definition example_response :: "int \<Rightarrow> string \<Rightarrow> exn + pyval \<Rightarrow> http_response" where
  "example_response code text body =
     \<lparr>is_Response = True, status_code = code, reason = Some text, url = ENDPOINT, json = body\<rparr>"

text \<open>The API answers 500 and the bot cannot send.\<close>

definition env_status_500 :: env where
  "env_status_500 =
     \<lparr>requests_get = (\<lambda>_. Inr (example_response 500 ''Internal Server Error''
                                 (Inl (OtherException ''Expecting value'')))),
      bot_sendMessage = (\<lambda>_ _. Inl (OtherException ''Timed out''))\<rparr>"

definition text_status_500 :: string where
  "text_status_500 = ''500 Server Error: Internal Server Error for url: '' @ ENDPOINT"

text \<open>The API answers 200 with the body \<^verbatim>\<open>{"current_date": 1700000000}\<close>, which lacks the
  \<^verbatim>\<open>homeworks\<close> key; the bot works.\<close>

definition env_no_homeworks :: env where
  "env_no_homeworks =
     \<lparr>requests_get = (\<lambda>_. Inr (example_response 200 ''OK''
                                 (Inr (PDict [(''current_date'', PInt 1700000000)])))),
      bot_sendMessage = (\<lambda>_ _. Inr ())\<rparr>"

text \<open>The API answers 200 with the body
  \<^verbatim>\<open>{"homeworks": [{"homework_name": "hw1", "status": "approved"}], "current_date": 1700000000}\<close>;
  the bot works.\<close>

definition env_hw1_approved :: env where
  "env_hw1_approved =
     \<lparr>requests_get = (\<lambda>_. Inr (example_response 200 ''OK''
        (Inr (PDict [(''homeworks'',
                      PList [PDict [(''homework_name'', PStr ''hw1''),
                                    (''status'', PStr ''approved'')]]),
                     (''current_date'', PInt 1700000000)])))),
      bot_sendMessage = (\<lambda>_ _. Inr ())\<rparr>"

section \<open>Properties\<close>

lemmas io_defs = io_bind_def io_return_def io_lift_def io_emit_def

subsection \<open>\<^verbatim>\<open>parse_status\<close>\<close>

text \<open>
  C1.  For a homework record, that is a dictionary whose \<^verbatim>\<open>homework_name\<close> is a text and
  whose \<^verbatim>\<open>status\<close> is a text, \<^verbatim>\<open>parse_status\<close> returns the template filled with the name
  and the verdict of the table when the status is \<^verbatim>\<open>approved\<close>, \<^verbatim>\<open>reviewing\<close> or
  \<^verbatim>\<open>rejected\<close>, and raises \<^verbatim>\<open>ResponseError\<close> (the spec's UnknownStatusError) with the
  message "undocumented status" for every other status.
\<close>

theorem parse_status_verdicts:
  assumes "map_of d ''homework_name'' = Some (PStr name)"
    and "map_of d ''status'' = Some (PStr st)"
  shows "parse_status repr (PDict d) =
     (if st = ''approved'' then
        Inr (msg_changed @ name @ [CHR 0x22] @ ''. '' @ verdict_approved)
      else if st = ''reviewing'' then
        Inr (msg_changed @ name @ [CHR 0x22] @ ''. '' @ verdict_reviewing)
      else if st = ''rejected'' then
        Inr (msg_changed @ name @ [CHR 0x22] @ ''. '' @ verdict_rejected)
      else Inl (ResponseError msg_undocumented))"
  using assms by (simp add: parse_status_def HOMEWORK_VERDICTS_def py_str_def)

theorem parse_status_verdicts_witness:
  "map_of [(''homework_name'', PStr ''hw1''), (''status'', PStr ''rejected'')] ''homework_name''
     = Some (PStr ''hw1'')
   \<and> map_of [(''homework_name'', PStr ''hw1''), (''status'', PStr ''rejected'')] ''status''
     = Some (PStr ''rejected'')
   \<and> parse_status (\<lambda>_. [])
        (PDict [(''homework_name'', PStr ''hw1''), (''status'', PStr ''rejected'')])
     = Inr (msg_changed @ ''hw1'' @ [CHR 0x22] @ ''. '' @ verdict_rejected)
   \<and> parse_status (\<lambda>_. [])
        (PDict [(''homework_name'', PStr ''hw1''), (''status'', PStr ''pending'')])
     = Inl (ResponseError msg_undocumented)"
  using
    parse_status_verdicts [of "[(''homework_name'', PStr ''hw1''), (''status'', PStr ''rejected'')]"
      "''hw1''" "''rejected''" "\<lambda>_. []"]
    parse_status_verdicts [of "[(''homework_name'', PStr ''hw1''), (''status'', PStr ''pending'')]"
      "''hw1''" "''pending''" "\<lambda>_. []"]
  by simp

subsection \<open>\<^verbatim>\<open>check_response\<close>\<close>

text \<open>
  C2.  \<^verbatim>\<open>check_response\<close> raises when the response is not a dictionary
  (\<^verbatim>\<open>TypeError\<close>), when it has no \<^verbatim>\<open>homeworks\<close> key (\<^verbatim>\<open>ResponseError\<close>) and when the value
  under \<^verbatim>\<open>homeworks\<close> is not a list (\<^verbatim>\<open>ResponseError\<close> for \<^verbatim>\<open>None\<close>, \<^verbatim>\<open>TypeError\<close>
  otherwise); these exceptions are the spec's FormatError.  In the one remaining case,
  a dictionary whose \<^verbatim>\<open>homeworks\<close> is a list, empty or not, it returns that list as it is.
\<close>

theorem check_response_format:
  "(\<not> isinstance_dict response \<longrightarrow> check_response response = Inl (TypeError msg_not_dict))
   \<and> (response = PDict d \<and> map_of d ''homeworks'' = None \<longrightarrow>
        check_response response = Inl (ResponseError msg_no_homeworks))
   \<and> (response = PDict d \<and> map_of d ''homeworks'' = Some v \<and> \<not> isinstance_list v \<longrightarrow>
        check_response response =
          Inl (if is_None v then ResponseError msg_no_homeworks
               else TypeError msg_bad_homeworks))
   \<and> (response = PDict d \<and> map_of d ''homeworks'' = Some (PList hs) \<longrightarrow>
        check_response response = Inr (PList hs))"
  by (cases response) (auto simp: check_response_def)

theorem check_response_format_witness:
  "\<not> isinstance_dict (PList [])
   \<and> check_response (PList []) = Inl (TypeError msg_not_dict)
   \<and> map_of [(''current_date'', PInt 1700000000)] ''homeworks'' = None
   \<and> check_response (PDict [(''current_date'', PInt 1700000000)])
       = Inl (ResponseError msg_no_homeworks)
   \<and> map_of [(''homeworks'', PStr ''abc'')] ''homeworks'' = Some (PStr ''abc'')
   \<and> \<not> isinstance_list (PStr ''abc'')
   \<and> check_response (PDict [(''homeworks'', PStr ''abc'')]) = Inl (TypeError msg_bad_homeworks)
   \<and> map_of [(''homeworks'', PList [])] ''homeworks'' = Some (PList [])
   \<and> check_response (PDict [(''homeworks'', PList [])]) = Inr (PList [])"
  using
    check_response_format [of "PList []" "[]" PNone "[]"]
    check_response_format [of "PDict [(''current_date'', PInt 1700000000)]"
      "[(''current_date'', PInt 1700000000)]" PNone "[]"]
    check_response_format [of "PDict [(''homeworks'', PStr ''abc'')]"
      "[(''homeworks'', PStr ''abc'')]" "PStr ''abc''" "[]"]
    check_response_format [of "PDict [(''homeworks'', PList [])]"
      "[(''homeworks'', PList [])]" "PList []" "[]"]
  by simp

subsection \<open>\<^verbatim>\<open>check_tokens\<close>\<close>

text \<open>
  C3, as the spec states it, asks for non-empty texts.  The code tests the types only:
  with three empty texts as credentials \<^verbatim>\<open>check_tokens\<close> is true, the spec's condition
  false.
\<close>

theorem check_tokens_empty_counterexample:
  "check_tokens \<lparr>PRACTICUM_TOKEN = PStr [], TELEGRAM_TOKEN = PStr [], TELEGRAM_CHAT_ID = PStr []\<rparr>
   \<noteq> spec_credentials_present
       \<lparr>PRACTICUM_TOKEN = PStr [], TELEGRAM_TOKEN = PStr [], TELEGRAM_CHAT_ID = PStr []\<rparr>"
  by (simp add: check_tokens_def spec_credentials_present_def)

text \<open>
  C3, amended.  \<^verbatim>\<open>check_tokens\<close> is true if and only if the API token and the bot token
  are texts and the chat id is a text or an integer (a Python \<^verbatim>\<open>int\<close>, which includes the
  booleans); whether a text is empty plays no role.
\<close>

theorem check_tokens_types:
  "check_tokens cfg \<longleftrightarrow>
     (\<exists>a. PRACTICUM_TOKEN cfg = PStr a) \<and> (\<exists>b. TELEGRAM_TOKEN cfg = PStr b)
     \<and> ((\<exists>c. TELEGRAM_CHAT_ID cfg = PStr c) \<or> (\<exists>i. TELEGRAM_CHAT_ID cfg = PInt i)
          \<or> (\<exists>b. TELEGRAM_CHAT_ID cfg = PBool b))"
  unfolding check_tokens_def
  by (cases "PRACTICUM_TOKEN cfg"; cases "TELEGRAM_TOKEN cfg"; cases "TELEGRAM_CHAT_ID cfg";
      simp)

subsection \<open>\<^verbatim>\<open>send_message\<close>\<close>

lemma send_message_cases:
  "send_message cfg b m =
     (Inr \<lparr>success = (case b (TELEGRAM_CHAT_ID cfg) m of Inl _ \<Rightarrow> False | Inr _ \<Rightarrow> True),
           error = (case b (TELEGRAM_CHAT_ID cfg) m of Inl e \<Rightarrow> Some e | Inr _ \<Rightarrow> None)\<rparr>,
      [SendMessage (TELEGRAM_CHAT_ID cfg) m])"
  by (simp add: send_message_def split: sum.splits)

text \<open>
  C8.  Whatever the bot's \<^verbatim>\<open>sendMessage\<close> does with the chat id and the message,
  \<^verbatim>\<open>send_message\<close> makes that one call and returns a result instead of raising: the
  success flag with no error when the call returned, and the failure flag together with
  the exception the call raised otherwise.
\<close>

theorem send_message_never_raises:
  "\<exists>r. send_message cfg bot' message = (Inr r, [SendMessage (TELEGRAM_CHAT_ID cfg) message])
       \<and> r = (case bot' (TELEGRAM_CHAT_ID cfg) message of
                Inr _ \<Rightarrow> \<lparr>success = True, error = None\<rparr>
              | Inl e \<Rightarrow> \<lparr>success = False, error = Some e\<rparr>)"
  by (simp add: send_message_def split: sum.splits)

subsection \<open>\<^verbatim>\<open>get_api_answer\<close>\<close>

lemma get_api_answer_events:
  "snd (get_api_answer repr cfg rg ts) = [HttpGet ENDPOINT (HEADERS repr cfg) ts]"
  by (simp add: get_api_answer_def io_defs split: sum.splits prod.splits)

lemma get_api_answer_result:
  "fst (get_api_answer repr cfg rg ts) =
     (case rg ts of
        Inl e \<Rightarrow> Inl e
      | Inr r \<Rightarrow>
          (case raise_for_status (if \<not> is_Response r then r\<lparr>reason := None\<rparr> else r) of
             Inl e \<Rightarrow> Inl e
           | Inr _ \<Rightarrow> json r))"
  by (simp add: get_api_answer_def io_defs split: sum.splits prod.splits)

text \<open>With a response at hand, \<^verbatim>\<open>get_api_answer\<close> raises \<^verbatim>\<open>HTTPError\<close> for the status
  codes 400 to 599 and otherwise does what \<^verbatim>\<open>response.json()\<close> does; this covers the
  codes 200 to 299.\<close>

lemma get_api_answer_by_status:
  assumes "rg ts = Inr r"
  shows "if 400 \<le> status_code r \<and> status_code r < 600
         then \<exists>m. fst (get_api_answer repr cfg rg ts) = Inl (HTTPError m)
         else fst (get_api_answer repr cfg rg ts) = json r"
  using assms by (auto simp: get_api_answer_result raise_for_status_def Let_def)

text \<open>
  C5.  The docstring of \<^verbatim>\<open>get_api_answer\<close> promises an exception for every status code
  other than 200, and the claim one for every code outside 200..299.  The code leaves
  the decision to \<^verbatim>\<open>raise_for_status\<close>, which raises from 400 to 599 only: a response
  with status 300 and a JSON body is returned like a successful one.
\<close>

theorem get_api_answer_status_300:
  "fst (get_api_answer (\<lambda>_. [])
          \<lparr>PRACTICUM_TOKEN = PStr ''p'', TELEGRAM_TOKEN = PStr ''t'', TELEGRAM_CHAT_ID = PStr ''1''\<rparr>
          (\<lambda>_. Inr \<lparr>is_Response = True, status_code = 300, reason = Some ''Multiple Choices'',
                     url = ENDPOINT, json = Inr (PDict [(''homeworks'', PList [])])\<rparr>)
          (PInt 0))
   = Inr (PDict [(''homeworks'', PList [])])"
  by (simp add: get_api_answer_result raise_for_status_def)

subsection \<open>The loop\<close>

text \<open>A response that passes \<^verbatim>\<open>check_response\<close> is a dictionary with a list under
  \<^verbatim>\<open>homeworks\<close>.\<close>

lemma check_response_dict:
  "check_response r = Inr x \<Longrightarrow>
     \<exists>d hs. r = PDict d \<and> map_of d ''homeworks'' = Some (PList hs) \<and> x = PList hs"
proof (cases r)
  case (PDict d)
  assume "check_response r = Inr x"
  then show ?thesis using PDict
    by (cases x) (auto simp: check_response_def split: option.splits if_splits)
qed (simp_all add: check_response_def)

lemma try_body_failure_events:
  assumes "fst (try_body repr cfg env ts) = Inl e"
  shows "snd (try_body repr cfg env ts) = [HttpGet ENDPOINT (HEADERS repr cfg) ts]"
proof (cases "get_api_answer repr cfg (requests_get env) ts")
  case (Pair r evs)
  have evs: "evs = [HttpGet ENDPOINT (HEADERS repr cfg) ts]"
    using get_api_answer_events[of repr cfg "requests_get env" ts] Pair by simp
  show ?thesis
  proof (cases r)
    case (Inl a)
    then show ?thesis using Pair evs by (simp add: try_body_def io_defs)
  next
    case (Inr response)
    show ?thesis
    proof (cases "check_response response")
      case (Inl a)
      then show ?thesis using Pair evs Inr by (simp add: try_body_def io_defs)
    next
      case (Inr x)
      from check_response_dict[OF this] obtain d hs where
        d: "response = PDict d" "map_of d ''homeworks'' = Some (PList hs)" by blast
      show ?thesis using assms Pair evs \<open>r = Inr response\<close> Inr d
        by (cases hs)
           (auto simp: try_body_def io_defs send_message_cases
                 split: sum.splits prod.splits if_splits)
    qed
  qed
qed

lemma handler_result:
  "handler cfg env s e =
     (Inr (s\<lparr>last_sent_error := msg_failure @ exn_str e\<rparr>),
      (if msg_failure @ exn_str e \<noteq> last_sent_error s
       then [SendMessage (TELEGRAM_CHAT_ID cfg) (msg_failure @ exn_str e)] else [])
      @ [LogError (msg_failure @ exn_str e)])"
  by (simp add: handler_def io_defs send_message_cases Let_def)

lemma iteration_failure:
  assumes "fst (try_body repr cfg env (timestamp s)) = Inl e"
  shows "iteration repr cfg env s =
     (Inr (s\<lparr>last_sent_error := msg_failure @ exn_str e\<rparr>),
      [HttpGet ENDPOINT (HEADERS repr cfg) (timestamp s)]
      @ (if msg_failure @ exn_str e \<noteq> last_sent_error s
         then [SendMessage (TELEGRAM_CHAT_ID cfg) (msg_failure @ exn_str e)] else [])
      @ [LogError (msg_failure @ exn_str e), Sleep RETRY_TIME])"
proof -
  have "try_body repr cfg env (timestamp s)
          = (Inl e, [HttpGet ENDPOINT (HEADERS repr cfg) (timestamp s)])"
    using assms try_body_failure_events[OF assms] by (simp add: prod_eq_iff)
  then show ?thesis by (simp add: iteration_def handler_result)
qed

lemma iteration_success:
  assumes "fst (try_body repr cfg env (timestamp s)) = Inr ts"
  shows "iteration repr cfg env s =
     (Inr (s\<lparr>timestamp := ts\<rparr>), snd (try_body repr cfg env (timestamp s)) @ [Sleep RETRY_TIME])"
  using assms by (cases "try_body repr cfg env (timestamp s)") (simp add: iteration_def)

lemma failure_text_Some:
  "failure_text repr cfg env ts = Some t \<longleftrightarrow>
     (\<exists>e. fst (try_body repr cfg env ts) = Inl e \<and> exn_str e = t)"
  by (auto simp: failure_text_def split: sum.splits)

lemma iteration_failure_text:
  assumes "failure_text repr cfg env (timestamp s) = Some t"
  shows "iteration repr cfg env s =
     (Inr (s\<lparr>last_sent_error := msg_failure @ t\<rparr>),
      [HttpGet ENDPOINT (HEADERS repr cfg) (timestamp s)]
      @ (if msg_failure @ t \<noteq> last_sent_error s
         then [SendMessage (TELEGRAM_CHAT_ID cfg) (msg_failure @ t)] else [])
      @ [LogError (msg_failure @ t), Sleep RETRY_TIME])"
  using assms iteration_failure unfolding failure_text_Some by blast

lemma run_failures:
  assumes "\<forall>env \<in> set envs. failure_text repr cfg env (timestamp s) = Some t"
  shows "\<exists>evs. run repr cfg envs s =
            (Inr (if envs = [] then s else s\<lparr>last_sent_error := msg_failure @ t\<rparr>), evs)
          \<and> sent_messages evs =
              (if envs \<noteq> [] \<and> msg_failure @ t \<noteq> last_sent_error s
               then [(TELEGRAM_CHAT_ID cfg, msg_failure @ t)] else [])
          \<and> logged_errors evs = replicate (length envs) (msg_failure @ t)"
  using assms
proof (induction envs arbitrary: s)
  case Nil
  then show ?case by simp
next
  case (Cons env envs)
  let ?s1 = "s\<lparr>last_sent_error := msg_failure @ t\<rparr>"
  have it: "iteration repr cfg env s =
     (Inr ?s1,
      [HttpGet ENDPOINT (HEADERS repr cfg) (timestamp s)]
      @ (if msg_failure @ t \<noteq> last_sent_error s
         then [SendMessage (TELEGRAM_CHAT_ID cfg) (msg_failure @ t)] else [])
      @ [LogError (msg_failure @ t), Sleep RETRY_TIME])"
    using Cons.prems by (simp add: iteration_failure_text)
  have "\<forall>env \<in> set envs. failure_text repr cfg env (timestamp ?s1) = Some t"
    using Cons.prems by simp
  from Cons.IH[OF this] obtain evs where
    r: "run repr cfg envs ?s1 = (Inr (if envs = [] then ?s1 else ?s1\<lparr>last_sent_error := msg_failure @ t\<rparr>), evs)"
    and sm: "sent_messages evs = []"
    and le: "logged_errors evs = replicate (length envs) (msg_failure @ t)"
    by auto
  show ?case using it r sm le by (simp add: io_bind_def)
qed


lemma failure_text_status_500:
  "failure_text (\<lambda>_. []) example_config env_status_500 ts = Some text_status_500"
  by (simp add: failure_text_def try_body_def get_api_answer_def io_defs raise_for_status_def
        env_status_500_def example_response_def text_status_500_def str_int_def digit_def)

text \<open>
  C4.  Let the \<^verbatim>\<open>try\<close> block fail in each of some consecutive iterations with an
  exception of the same text \<open>t\<close>.  Then no exception leaves the loop, the message
  "Sboi v rabote programmy: t" is logged as an error once per iteration, and it is sent
  to the chat at most once: once, in the first of these iterations, if it differs from
  \<^verbatim>\<open>last_sent_error\<close> there, and not at all if it is equal.  \<^verbatim>\<open>last_sent_error\<close> is the
  message afterwards and the cursor is untouched.  For a single iteration this is the
  error branch itself: send and update exactly when the message differs, log always.
\<close>

theorem failure_notified_once:
  assumes "\<forall>env \<in> set envs. failure_text repr cfg env (timestamp s) = Some t"
  shows "\<exists>s' evs. run repr cfg envs s = (Inr s', evs)
          \<and> sent_messages evs =
              (if envs \<noteq> [] \<and> msg_failure @ t \<noteq> last_sent_error s
               then [(TELEGRAM_CHAT_ID cfg, msg_failure @ t)] else [])
          \<and> length (sent_messages evs) \<le> 1
          \<and> logged_errors evs = replicate (length envs) (msg_failure @ t)
          \<and> last_sent_error s' = (if envs = [] then last_sent_error s else msg_failure @ t)
          \<and> timestamp s' = timestamp s"
proof -
  from run_failures[OF assms] obtain evs where
    "run repr cfg envs s =
       (Inr (if envs = [] then s else s\<lparr>last_sent_error := msg_failure @ t\<rparr>), evs)"
    "sent_messages evs =
       (if envs \<noteq> [] \<and> msg_failure @ t \<noteq> last_sent_error s
        then [(TELEGRAM_CHAT_ID cfg, msg_failure @ t)] else [])"
    "logged_errors evs = replicate (length envs) (msg_failure @ t)"
    by blast
  then show ?thesis by auto
qed

theorem failure_notified_once_witness:
  "failure_text (\<lambda>_. []) example_config env_status_500
       (timestamp \<lparr>timestamp = PInt 0, last_sent_error = []\<rparr>) = Some text_status_500
   \<and> (\<exists>s' evs.
        run (\<lambda>_. []) example_config [env_status_500, env_status_500, env_status_500]
          \<lparr>timestamp = PInt 0, last_sent_error = []\<rparr> = (Inr s', evs)
        \<and> sent_messages evs = [(PInt 42, msg_failure @ text_status_500)]
        \<and> logged_errors evs =
            [msg_failure @ text_status_500, msg_failure @ text_status_500,
             msg_failure @ text_status_500]
        \<and> last_sent_error s' = msg_failure @ text_status_500
        \<and> timestamp s' = PInt 0)"
proof -
  let ?s = "\<lparr>timestamp = PInt 0, last_sent_error = []\<rparr>"
  let ?envs = "[env_status_500, env_status_500, env_status_500]"
  let ?m = "msg_failure @ text_status_500"
  have h: "\<forall>env \<in> set ?envs.
      failure_text (\<lambda>_. []) example_config env (timestamp ?s) = Some text_status_500"
    by (simp add: failure_text_status_500)
  have ne: "?m \<noteq> []"
    by (simp add: text_status_500_def)
  from failure_notified_once [OF h] obtain s' evs where
    r: "run (\<lambda>_. []) example_config ?envs ?s = (Inr s', evs)" and
    sm: "sent_messages evs =
          (if ?envs \<noteq> [] \<and> ?m \<noteq> last_sent_error ?s
           then [(TELEGRAM_CHAT_ID example_config, ?m)] else [])" and
    le: "logged_errors evs = replicate (length ?envs) ?m" and
    ls: "last_sent_error s' = (if ?envs = [] then last_sent_error ?s else ?m)" and
    ts: "timestamp s' = timestamp ?s"
    by blast
  have "sent_messages evs = [(PInt 42, ?m)]"
    using sm ne by (simp add: example_config_def)
  moreover have "logged_errors evs = [?m, ?m, ?m]"
    using le by simp
  moreover have "last_sent_error s' = ?m"
    using ls by simp
  moreover have "timestamp s' = PInt 0"
    using ts by simp
  ultimately show ?thesis
    using h r by auto
qed

text \<open>
  C10.  In a failing iteration whose message differs from \<^verbatim>\<open>last_sent_error\<close> the
  handler calls \<^verbatim>\<open>send_message\<close> once and stores the message in \<^verbatim>\<open>last_sent_error\<close>
  whatever the bot does, in particular when \<^verbatim>\<open>bot.sendMessage\<close> raises and nothing
  reaches the chat.  In the iterations that follow and fail with the same text the
  message is not sent again.
\<close>

theorem failed_notification_not_resent:
  assumes "failure_text repr cfg env (timestamp s) = Some t"
    and "msg_failure @ t \<noteq> last_sent_error s"
    and "\<forall>env' \<in> set envs. failure_text repr cfg env' (timestamp s) = Some t"
  shows "\<exists>s' evs. iteration repr cfg env s = (Inr s', evs)
          \<and> sent_messages evs = [(TELEGRAM_CHAT_ID cfg, msg_failure @ t)]
          \<and> s' = s\<lparr>last_sent_error := msg_failure @ t\<rparr>
          \<and> sent_messages (snd (run repr cfg envs s')) = []"
proof -
  let ?s1 = "s\<lparr>last_sent_error := msg_failure @ t\<rparr>"
  have "\<forall>env' \<in> set envs. failure_text repr cfg env' (timestamp ?s1) = Some t"
    using assms(3) by simp
  from run_failures[OF this] have "sent_messages (snd (run repr cfg envs ?s1)) = []"
    by auto
  then show ?thesis
    using assms(2) by (simp add: iteration_failure_text[OF assms(1)])
qed

theorem failed_notification_not_resent_witness:
  "failure_text (\<lambda>_. []) example_config env_status_500
       (timestamp \<lparr>timestamp = PInt 0, last_sent_error = []\<rparr>) = Some text_status_500
   \<and> msg_failure @ text_status_500 \<noteq> last_sent_error \<lparr>timestamp = PInt 0, last_sent_error = []\<rparr>
   \<and> bot_sendMessage env_status_500 (TELEGRAM_CHAT_ID example_config)
        (msg_failure @ text_status_500) = Inl (OtherException ''Timed out'')
   \<and> fst (iteration (\<lambda>_. []) example_config env_status_500
            \<lparr>timestamp = PInt 0, last_sent_error = []\<rparr>)
       = Inr \<lparr>timestamp = PInt 0, last_sent_error = msg_failure @ text_status_500\<rparr>
   \<and> sent_messages (snd (run (\<lambda>_. []) example_config [env_status_500, env_status_500]
        \<lparr>timestamp = PInt 0, last_sent_error = msg_failure @ text_status_500\<rparr>)) = []"
proof -
  let ?s = "\<lparr>timestamp = PInt 0, last_sent_error = []\<rparr>"
  have h1: "failure_text (\<lambda>_. []) example_config env_status_500 (timestamp ?s)
              = Some text_status_500"
    by (simp add: failure_text_status_500)
  have h2: "msg_failure @ text_status_500 \<noteq> last_sent_error ?s"
    by (simp add: text_status_500_def)
  have h3: "\<forall>env' \<in> set [env_status_500, env_status_500].
        failure_text (\<lambda>_. []) example_config env' (timestamp ?s) = Some text_status_500"
    by (simp add: failure_text_status_500)
  have h4: "bot_sendMessage env_status_500 (TELEGRAM_CHAT_ID example_config)
        (msg_failure @ text_status_500) = Inl (OtherException ''Timed out'')"
    by (simp add: env_status_500_def)
  show ?thesis
    using h1 h2 h3 h4 failed_notification_not_resent [OF h1 h2 h3] by auto
qed

lemma get_api_answer_pair:
  "get_api_answer repr cfg rg ts =
     (fst (get_api_answer repr cfg rg ts), [HttpGet ENDPOINT (HEADERS repr cfg) ts])"
  using get_api_answer_events [of repr cfg rg ts] by (simp add: prod_eq_iff)

lemma try_body_fetch_failure:
  assumes "fst (get_api_answer repr cfg (requests_get env) ts) = Inl e"
  shows "fst (try_body repr cfg env ts) = Inl e"
  using assms get_api_answer_pair [of repr cfg "requests_get env" ts]
  by (simp add: try_body_def io_defs)

lemma try_body_check_failure:
  assumes "fst (get_api_answer repr cfg (requests_get env) ts) = Inr body"
    and "check_response body = Inl e"
  shows "fst (try_body repr cfg env ts) = Inl e"
  using assms get_api_answer_pair [of repr cfg "requests_get env" ts]
  by (simp add: try_body_def io_defs)

lemma try_body_success:
  assumes "fst (try_body repr cfg env ts) = Inr ts'"
  shows "\<exists>d hs. fst (get_api_answer repr cfg (requests_get env) ts) = Inr (PDict d)
           \<and> map_of d ''homeworks'' = Some (PList hs)
           \<and> py_get (PDict d) ''current_date'' = Inr ts'"
proof (cases "fst (get_api_answer repr cfg (requests_get env) ts)")
  case (Inl e)
  from try_body_fetch_failure [OF this] assms show ?thesis by simp
next
  case (Inr body)
  show ?thesis
  proof (cases "check_response body")
    case (Inl e)
    from try_body_check_failure [OF Inr this] assms show ?thesis by simp
  next
    case r: (Inr x)
    from check_response_dict [OF this] obtain d hs where
      d: "body = PDict d" "map_of d ''homeworks'' = Some (PList hs)" by blast
    have "py_get (PDict d) ''current_date'' = Inr ts'"
      using assms Inr r d get_api_answer_pair [of repr cfg "requests_get env" ts]
      by (cases hs)
         (auto simp: try_body_def io_defs send_message_cases
               split: sum.splits prod.splits if_splits)
    then show ?thesis using Inr d by simp
  qed
qed

lemma sleeps_append: "sleeps (xs @ ys) = sleeps xs @ sleeps ys"
  by (induction xs rule: sleeps.induct) simp_all

lemma try_body_no_sleep: "sleeps (snd (try_body repr cfg env ts)) = []"
proof (cases "fst (try_body repr cfg env ts)")
  case (Inl e)
  from try_body_failure_events [OF this] show ?thesis by simp
next
  case (Inr ts')
  from try_body_success [OF this] obtain d hs where
    g: "fst (get_api_answer repr cfg (requests_get env) ts) = Inr (PDict d)" and
    h: "map_of d ''homeworks'' = Some (PList hs)" by blast
  show ?thesis
    using g h get_api_answer_pair [of repr cfg "requests_get env" ts]
    by (cases hs)
       (auto simp: try_body_def io_defs send_message_cases check_response_def
             split: sum.splits prod.splits if_splits)
qed

lemma iteration_returns:
  "\<exists>s' evs. iteration repr cfg env s = (Inr s', evs @ [Sleep RETRY_TIME]) \<and> sleeps evs = []"
proof (cases "fst (try_body repr cfg env (timestamp s))")
  case (Inl e)
  have "iteration repr cfg env s =
     (Inr (s\<lparr>last_sent_error := msg_failure @ exn_str e\<rparr>),
      ([HttpGet ENDPOINT (HEADERS repr cfg) (timestamp s)]
       @ (if msg_failure @ exn_str e \<noteq> last_sent_error s
          then [SendMessage (TELEGRAM_CHAT_ID cfg) (msg_failure @ exn_str e)] else [])
       @ [LogError (msg_failure @ exn_str e)]) @ [Sleep RETRY_TIME])"
    using iteration_failure [OF Inl] by simp
  moreover have "sleeps ([HttpGet ENDPOINT (HEADERS repr cfg) (timestamp s)]
       @ (if msg_failure @ exn_str e \<noteq> last_sent_error s
          then [SendMessage (TELEGRAM_CHAT_ID cfg) (msg_failure @ exn_str e)] else [])
       @ [LogError (msg_failure @ exn_str e)]) = []"
    by simp
  ultimately show ?thesis by blast
next
  case (Inr ts)
  from iteration_success [OF this] try_body_no_sleep [of repr cfg env "timestamp s"]
  show ?thesis by blast
qed

lemma run_returns:
  "\<exists>s' evs. run repr cfg envs s = (Inr s', evs)
     \<and> sleeps evs = replicate (length envs) RETRY_TIME"
proof (induction envs arbitrary: s)
  case Nil
  show ?case by simp
next
  case (Cons env envs)
  from iteration_returns [of repr cfg env s] obtain s1 evs1 where
    i: "iteration repr cfg env s = (Inr s1, evs1 @ [Sleep RETRY_TIME])" and
    n: "sleeps evs1 = []" by blast
  from Cons.IH [of s1] obtain s2 evs2 where
    r: "run repr cfg envs s1 = (Inr s2, evs2)" and
    m: "sleeps evs2 = replicate (length envs) RETRY_TIME" by blast
  have "run repr cfg (env # envs) s = (Inr s2, (evs1 @ [Sleep RETRY_TIME]) @ evs2)"
    using i r by (simp add: io_bind_def)
  moreover have "sleeps ((evs1 @ [Sleep RETRY_TIME]) @ evs2)
                   = replicate (length (env # envs)) RETRY_TIME"
    using n m by (simp add: sleeps_append)
  ultimately show ?case by blast
qed

text \<open>
  C7, as stated, lets the process end only because of missing or wrongly typed
  credentials.  The bot is constructed on line 108, after \<^verbatim>\<open>check_tokens\<close> and outside any
  \<^verbatim>\<open>try\<close>: with three well-typed, non-empty credentials and a constructor that rejects
  the token, the exception leaves \<^verbatim>\<open>main\<close> and the process ends before the first
  iteration.
\<close>

theorem bot_constructor_ends_process_counterexample:
  "check_tokens example_config
   \<and> spec_credentials_present example_config
   \<and> main (\<lambda>_. []) example_config (\<lambda>_. Some (OtherException ''Invalid token'')) 0
        [env_hw1_approved, env_status_500]
     = (Uncaught (OtherException ''Invalid token''), [])"
  by (simp add: main_def check_tokens_def spec_credentials_present_def example_config_def)

text \<open>
  C7, amended.  Each iteration returns to the loop with a state: if the \<^verbatim>\<open>try\<close> block
  raises, the handler runs (the failure is logged) and no exception leaves the
  iteration.  The last event of every iteration is its only sleep, of \<^verbatim>\<open>RETRY_TIME\<close> =
  600 seconds.  Hence the loop goes through any number of iterations, sleeping 600
  seconds in each.  The process ends only at startup, before the first iteration, and in
  two ways only: it calls \<^verbatim>\<open>exit\<close> with code -1, after a critical log line, exactly when
  \<^verbatim>\<open>check_tokens\<close> fails; and it ends with an uncaught exception exactly when
  \<^verbatim>\<open>check_tokens\<close> holds and the constructor of the bot raises on the bot token.  In the
  remaining case it is still in the loop after any number of iterations.
\<close>

theorem loop_catches_everything:
  "RETRY_TIME = 600
   \<and> (\<exists>s' evs. iteration repr cfg env s = (Inr s', evs @ [Sleep 600]) \<and> sleeps evs = [])
   \<and> (\<forall>e. fst (try_body repr cfg env (timestamp s)) = Inl e \<longrightarrow>
         logged_errors (snd (iteration repr cfg env s)) = [msg_failure @ exn_str e])
   \<and> (\<exists>s' evs. run repr cfg envs s = (Inr s', evs)
         \<and> sleeps evs = replicate (length envs) 600)
   \<and> ((\<exists>c. fst (main repr cfg telegram_Bot now envs) = Exit c) = (\<not> check_tokens cfg))
   \<and> (\<not> check_tokens cfg \<longrightarrow>
         main repr cfg telegram_Bot now envs = (Exit (- 1), [LogCritical msg_critical]))
   \<and> ((\<exists>e. fst (main repr cfg telegram_Bot now envs) = Uncaught e)
        = (check_tokens cfg \<and> (\<exists>e. telegram_Bot (TELEGRAM_TOKEN cfg) = Some e)))
   \<and> (\<forall>e. check_tokens cfg \<and> telegram_Bot (TELEGRAM_TOKEN cfg) = Some e \<longrightarrow>
         main repr cfg telegram_Bot now envs = (Uncaught e, []))
   \<and> (check_tokens cfg \<and> telegram_Bot (TELEGRAM_TOKEN cfg) = None \<longrightarrow>
         (\<exists>s' evs. main repr cfg telegram_Bot now envs = (Running s', evs)
            \<and> sleeps evs = replicate (length envs) 600))"
proof -
  let ?s0 = "\<lparr>timestamp = PInt now, last_sent_error = []\<rparr>"
  have a: "RETRY_TIME = 600"
    by (simp add: RETRY_TIME_def)
  have b: "\<exists>s' evs. iteration repr cfg env s = (Inr s', evs @ [Sleep 600]) \<and> sleeps evs = []"
    using iteration_returns [of repr cfg env s] by (simp add: a)
  have c: "\<forall>e. fst (try_body repr cfg env (timestamp s)) = Inl e \<longrightarrow>
         logged_errors (snd (iteration repr cfg env s)) = [msg_failure @ exn_str e]"
    by (simp add: iteration_failure)
  have d: "\<exists>s' evs. run repr cfg envs s = (Inr s', evs)
         \<and> sleeps evs = replicate (length envs) 600" for s
    using run_returns [of repr cfg envs s] by (simp add: a)
  from d [of ?s0] obtain s1 evs1 where
    r: "run repr cfg envs ?s0 = (Inr s1, evs1)" and
    n: "sleeps evs1 = replicate (length envs) 600"
    by blast
  have e: "(\<exists>c. fst (main repr cfg telegram_Bot now envs) = Exit c) = (\<not> check_tokens cfg)"
    using r by (simp add: main_def split: option.splits)
  have f: "\<not> check_tokens cfg \<longrightarrow>
         main repr cfg telegram_Bot now envs = (Exit (- 1), [LogCritical msg_critical])"
    by (simp add: main_def)
  have g: "(\<exists>e. fst (main repr cfg telegram_Bot now envs) = Uncaught e)
        = (check_tokens cfg \<and> (\<exists>e. telegram_Bot (TELEGRAM_TOKEN cfg) = Some e))"
    using r by (cases "telegram_Bot (TELEGRAM_TOKEN cfg)") (simp_all add: main_def)
  have h: "\<forall>e. check_tokens cfg \<and> telegram_Bot (TELEGRAM_TOKEN cfg) = Some e \<longrightarrow>
         main repr cfg telegram_Bot now envs = (Uncaught e, [])"
    by (simp add: main_def)
  have i: "check_tokens cfg \<and> telegram_Bot (TELEGRAM_TOKEN cfg) = None \<longrightarrow>
         (\<exists>s' evs. main repr cfg telegram_Bot now envs = (Running s', evs)
            \<and> sleeps evs = replicate (length envs) 600)"
    using r n by (simp add: main_def)
  from a b c d [of s] e f g h i show ?thesis by blast
qed

theorem loop_catches_everything_witness:
  "fst (try_body (\<lambda>_. []) example_config env_status_500 (PInt 0))
     = Inl (HTTPError text_status_500)
   \<and> logged_errors (snd (iteration (\<lambda>_. []) example_config env_status_500
        \<lparr>timestamp = PInt 0, last_sent_error = []\<rparr>)) = [msg_failure @ text_status_500]
   \<and> main (\<lambda>_. []) (example_config\<lparr>TELEGRAM_CHAT_ID := PNone\<rparr>) (\<lambda>_. None) 0
        [env_status_500, env_hw1_approved] = (Exit (- 1), [LogCritical msg_critical])
   \<and> check_tokens example_config
   \<and> main (\<lambda>_. []) example_config (\<lambda>_. Some (OtherException ''Unauthorized'')) 0
        [env_status_500, env_hw1_approved] = (Uncaught (OtherException ''Unauthorized''), [])
   \<and> (\<exists>s' evs. main (\<lambda>_. []) example_config (\<lambda>_. None) 0
         [env_status_500, env_hw1_approved] = (Running s', evs) \<and> sleeps evs = [600, 600])"
proof -
  let ?s = "\<lparr>timestamp = PInt 0, last_sent_error = []\<rparr>"
  let ?envs = "[env_status_500, env_hw1_approved]"
  let ?raise = "\<lambda>_ :: pyval. Some (OtherException ''Unauthorized'')"
  have h1: "fst (try_body (\<lambda>_. []) example_config env_status_500 (timestamp ?s))
              = Inl (HTTPError text_status_500)"
    by (simp add: try_body_def get_api_answer_def io_defs raise_for_status_def
          env_status_500_def example_response_def text_status_500_def str_int_def digit_def)
  have h2: "\<not> check_tokens (example_config\<lparr>TELEGRAM_CHAT_ID := PNone\<rparr>)"
    by (simp add: check_tokens_def example_config_def)
  have h3: "check_tokens example_config
              \<and> (\<lambda>_. None) (TELEGRAM_TOKEN example_config) = (None :: exn option)"
    by (simp add: check_tokens_def example_config_def)
  have h4: "check_tokens example_config
              \<and> ?raise (TELEGRAM_TOKEN example_config) = Some (OtherException ''Unauthorized'')"
    by (simp add: check_tokens_def example_config_def)
  have "logged_errors (snd (iteration (\<lambda>_. []) example_config env_status_500 ?s))
          = [msg_failure @ text_status_500]"
    using h1 loop_catches_everything [of "\<lambda>_. []" example_config env_status_500 ?s]
    by auto
  moreover have "main (\<lambda>_. []) (example_config\<lparr>TELEGRAM_CHAT_ID := PNone\<rparr>) (\<lambda>_. None) 0 ?envs
          = (Exit (- 1), [LogCritical msg_critical])"
    using h2 loop_catches_everything
      [of "\<lambda>_. []" "example_config\<lparr>TELEGRAM_CHAT_ID := PNone\<rparr>" _ _ ?envs "\<lambda>_. None" 0]
    by blast
  moreover have "main (\<lambda>_. []) example_config ?raise 0 ?envs
          = (Uncaught (OtherException ''Unauthorized''), [])"
    using h4 loop_catches_everything [of "\<lambda>_. []" example_config _ _ ?envs ?raise 0]
    by blast
  moreover have "\<exists>s' evs. main (\<lambda>_. []) example_config (\<lambda>_. None) 0 ?envs = (Running s', evs)
          \<and> sleeps evs = [600, 600]"
  proof -
    from h3 loop_catches_everything [of "\<lambda>_. []" example_config _ _ ?envs "\<lambda>_. None" 0]
    obtain s' evs where
      "main (\<lambda>_. []) example_config (\<lambda>_. None) 0 ?envs = (Running s', evs)"
      "sleeps evs = replicate (length ?envs) 600"
      by blast
    then show ?thesis by simp
  qed
  ultimately show ?thesis using h1 h3 by simp
qed

text \<open>
  C6.  Let the response fetched in an iteration be a dictionary whose \<^verbatim>\<open>homeworks\<close> list
  begins with the record \<^verbatim>\<open>{"homework_name": "hw1", "status": "approved"}\<close> and whose
  \<^verbatim>\<open>current_date\<close> is 1700000000.  Then, from any state and whatever follows the first
  record in the list, exactly one message is sent to the chat, the text "Izmenilsya
  status proverki raboty "hw1". Rabota proverena: revyueru vsyo ponravilos. Ura!", and the
  cursor becomes 1700000000; \<^verbatim>\<open>last_sent_error\<close> keeps its value.
\<close>

theorem iteration_hw1_approved:
  assumes "fst (get_api_answer repr cfg (requests_get env) (timestamp s)) = Inr (PDict d)"
    and "map_of d ''homeworks'' =
           Some (PList (PDict [(''homework_name'', PStr ''hw1''), (''status'', PStr ''approved'')]
                        # rest))"
    and "map_of d ''current_date'' = Some (PInt 1700000000)"
  shows "\<exists>evs. iteration repr cfg env s = (Inr (s\<lparr>timestamp := PInt 1700000000\<rparr>), evs)
          \<and> sent_messages evs =
              [(TELEGRAM_CHAT_ID cfg,
                msg_changed @ ''hw1'' @ [CHR 0x22] @ ''. '' @ verdict_approved)]"
  using assms get_api_answer_pair [of repr cfg "requests_get env" "timestamp s"]
  by (simp add: iteration_def try_body_def io_defs check_response_def parse_status_def
        HOMEWORK_VERDICTS_def py_str_def send_message_cases)

theorem iteration_hw1_approved_witness:
  "fst (get_api_answer (\<lambda>_. []) example_config (requests_get env_hw1_approved)
          (timestamp \<lparr>timestamp = PInt 0, last_sent_error = []\<rparr>))
     = Inr (PDict [(''homeworks'',
                    PList [PDict [(''homework_name'', PStr ''hw1''),
                                  (''status'', PStr ''approved'')]]),
                   (''current_date'', PInt 1700000000)])
   \<and> (\<exists>evs. iteration (\<lambda>_. []) example_config env_hw1_approved
               \<lparr>timestamp = PInt 0, last_sent_error = []\<rparr>
             = (Inr \<lparr>timestamp = PInt 1700000000, last_sent_error = []\<rparr>, evs)
           \<and> sent_messages evs =
               [(PInt 42, msg_changed @ ''hw1'' @ [CHR 0x22] @ ''. '' @ verdict_approved)])"
proof -
  let ?s = "\<lparr>timestamp = PInt 0, last_sent_error = []\<rparr>"
  let ?d = "[(''homeworks'',
              PList [PDict [(''homework_name'', PStr ''hw1''), (''status'', PStr ''approved'')]]),
             (''current_date'', PInt 1700000000)]"
  have h1: "fst (get_api_answer (\<lambda>_. []) example_config (requests_get env_hw1_approved)
                  (timestamp ?s)) = Inr (PDict ?d)"
    by (simp add: get_api_answer_result raise_for_status_def env_hw1_approved_def
          example_response_def)
  have h2: "map_of ?d ''homeworks'' =
           Some (PList (PDict [(''homework_name'', PStr ''hw1''), (''status'', PStr ''approved'')]
                        # []))"
    by simp
  have h3: "map_of ?d ''current_date'' = Some (PInt 1700000000)"
    by simp
  show ?thesis
    using h1 iteration_hw1_approved [OF h1 h2 h3] by (simp add: example_config_def)
qed

text \<open>
  C9, as stated, has the cursor advanced from \<^verbatim>\<open>current_date\<close> in an iteration that
  fails validation.  The assignment to \<^verbatim>\<open>timestamp\<close> is the last statement of the \<^verbatim>\<open>try\<close>
  block: with the body \<^verbatim>\<open>{"current_date": 1700000000}\<close>, which has no \<^verbatim>\<open>homeworks\<close>,
  the iteration starting at cursor 0 ends with cursor 0.
\<close>

theorem cursor_kept_on_failure_counterexample:
  "fst (get_api_answer (\<lambda>_. []) example_config (requests_get env_no_homeworks) (PInt 0))
     = Inr (PDict [(''current_date'', PInt 1700000000)])
   \<and> fst (iteration (\<lambda>_. []) example_config env_no_homeworks
            \<lparr>timestamp = PInt 0, last_sent_error = []\<rparr>)
     = Inr \<lparr>timestamp = PInt 0, last_sent_error = msg_failure @ msg_no_homeworks\<rparr>"
  by (simp add: iteration_def handler_result try_body_def get_api_answer_def io_defs
        raise_for_status_def check_response_def env_no_homeworks_def example_response_def)

text \<open>
  C9, amended.  The cursor changes only in an iteration whose \<^verbatim>\<open>try\<close> block completes:
  then the fetched body is a dictionary and the new cursor is its \<^verbatim>\<open>current_date\<close> as
  \<^verbatim>\<open>.get\<close> returns it, without any check (\<^verbatim>\<open>None\<close> when the key is missing).  In every
  iteration whose \<^verbatim>\<open>try\<close> block raises, in particular when the fetched body fails
  \<^verbatim>\<open>check_response\<close>, the cursor keeps its value.
\<close>

theorem cursor_advances_only_on_success:
  "(\<forall>e. fst (try_body repr cfg env (timestamp s)) = Inl e \<longrightarrow>
      fst (iteration repr cfg env s) = Inr (s\<lparr>last_sent_error := msg_failure @ exn_str e\<rparr>))
   \<and> (\<forall>body e. fst (get_api_answer repr cfg (requests_get env) (timestamp s)) = Inr body
         \<and> check_response body = Inl e \<longrightarrow>
      fst (iteration repr cfg env s) = Inr (s\<lparr>last_sent_error := msg_failure @ exn_str e\<rparr>))
   \<and> (\<forall>ts. fst (try_body repr cfg env (timestamp s)) = Inr ts \<longrightarrow>
      (\<exists>d. fst (get_api_answer repr cfg (requests_get env) (timestamp s)) = Inr (PDict d)
         \<and> ts = (case map_of d ''current_date'' of None \<Rightarrow> PNone | Some v \<Rightarrow> v))
      \<and> fst (iteration repr cfg env s) = Inr (s\<lparr>timestamp := ts\<rparr>))"
proof -
  have a: "\<forall>e. fst (try_body repr cfg env (timestamp s)) = Inl e \<longrightarrow>
      fst (iteration repr cfg env s) = Inr (s\<lparr>last_sent_error := msg_failure @ exn_str e\<rparr>)"
    by (simp add: iteration_failure)
  have b: "\<forall>body e. fst (get_api_answer repr cfg (requests_get env) (timestamp s)) = Inr body
         \<and> check_response body = Inl e \<longrightarrow>
      fst (iteration repr cfg env s) = Inr (s\<lparr>last_sent_error := msg_failure @ exn_str e\<rparr>)"
    using a try_body_check_failure by blast
  have c: "\<forall>ts. fst (try_body repr cfg env (timestamp s)) = Inr ts \<longrightarrow>
      (\<exists>d. fst (get_api_answer repr cfg (requests_get env) (timestamp s)) = Inr (PDict d)
         \<and> ts = (case map_of d ''current_date'' of None \<Rightarrow> PNone | Some v \<Rightarrow> v))
      \<and> fst (iteration repr cfg env s) = Inr (s\<lparr>timestamp := ts\<rparr>)"
  proof (intro allI impI)
    fix ts
    assume t: "fst (try_body repr cfg env (timestamp s)) = Inr ts"
    from try_body_success [OF t] obtain d where
      "fst (get_api_answer repr cfg (requests_get env) (timestamp s)) = Inr (PDict d)"
      "py_get (PDict d) ''current_date'' = Inr ts"
      by blast
    then have "\<exists>d. fst (get_api_answer repr cfg (requests_get env) (timestamp s)) = Inr (PDict d)
         \<and> ts = (case map_of d ''current_date'' of None \<Rightarrow> PNone | Some v \<Rightarrow> v)"
      by auto
    then show "(\<exists>d. fst (get_api_answer repr cfg (requests_get env) (timestamp s)) = Inr (PDict d)
         \<and> ts = (case map_of d ''current_date'' of None \<Rightarrow> PNone | Some v \<Rightarrow> v))
      \<and> fst (iteration repr cfg env s) = Inr (s\<lparr>timestamp := ts\<rparr>)"
      using iteration_success [OF t] by simp
  qed
  from a b c show ?thesis by blast
qed

theorem cursor_advances_only_on_success_witness:
  "check_response (PDict [(''current_date'', PInt 1700000000)])
     = Inl (ResponseError msg_no_homeworks)
   \<and> fst (iteration (\<lambda>_. []) example_config env_no_homeworks
            \<lparr>timestamp = PInt 0, last_sent_error = []\<rparr>)
     = Inr \<lparr>timestamp = PInt 0, last_sent_error = msg_failure @ msg_no_homeworks\<rparr>
   \<and> fst (try_body (\<lambda>_. []) example_config env_hw1_approved (PInt 0))
     = Inr (PInt 1700000000)
   \<and> fst (iteration (\<lambda>_. []) example_config env_hw1_approved
            \<lparr>timestamp = PInt 0, last_sent_error = []\<rparr>)
     = Inr \<lparr>timestamp = PInt 1700000000, last_sent_error = []\<rparr>"
proof -
  let ?s = "\<lparr>timestamp = PInt 0, last_sent_error = []\<rparr>"
  let ?body = "PDict [(''current_date'', PInt 1700000000)]"
  have h1: "fst (get_api_answer (\<lambda>_. []) example_config (requests_get env_no_homeworks)
                  (timestamp ?s)) = Inr ?body"
    by (simp add: get_api_answer_result raise_for_status_def env_no_homeworks_def
          example_response_def)
  have h2: "check_response ?body = Inl (ResponseError msg_no_homeworks)"
    by (simp add: check_response_def)
  have h3: "fst (try_body (\<lambda>_. []) example_config env_no_homeworks (timestamp ?s))
              = Inl (ResponseError msg_no_homeworks)"
    using try_body_check_failure [OF h1 h2] .
  have h4: "fst (try_body (\<lambda>_. []) example_config env_hw1_approved (timestamp ?s))
              = Inr (PInt 1700000000)"
    by (simp add: try_body_def get_api_answer_def io_defs raise_for_status_def
          check_response_def parse_status_def HOMEWORK_VERDICTS_def send_message_cases
          env_hw1_approved_def example_response_def)
  have "fst (iteration (\<lambda>_. []) example_config env_no_homeworks ?s)
          = Inr \<lparr>timestamp = PInt 0, last_sent_error = msg_failure @ msg_no_homeworks\<rparr>"
    using h1 h2 h3 cursor_advances_only_on_success
      [of "\<lambda>_. []" example_config env_no_homeworks ?s]
    by auto
  moreover have "fst (iteration (\<lambda>_. []) example_config env_hw1_approved ?s)
          = Inr \<lparr>timestamp = PInt 1700000000, last_sent_error = []\<rparr>"
    using h4 cursor_advances_only_on_success
      [of "\<lambda>_. []" example_config env_hw1_approved ?s]
    by auto
  ultimately show ?thesis using h2 h4 by simp
qed

end
